theory Spec2Isabelle
  imports Main "HOL-Library.AList"
begin

section \<open>Python values and objects\<close>

text \<open>
  The values that the attributes of a field definition hold, as far as
  \<^verbatim>\<open>rest_framework_mongoengine/utils.py\<close> looks at them: it tests their truth value,
  compares them with \<^verbatim>\<open>None\<close> and copies them into the keyword arguments.
  A callable (a validation function, a callable default) is a \<open>PyFunc\<close> with its name.
\<close>

datatype pyval =
    PyNone
  | PyBool bool
  | PyInt int
  | PyStr string
  | PyList "pyval list"
  | PyFunc string

text \<open>Python's truth value testing, as \<^verbatim>\<open>if x:\<close> applies it.\<close>

fun truthy :: "pyval \<Rightarrow> bool" where
  "truthy PyNone = False"
| "truthy (PyBool b) = b"
| "truthy (PyInt i) = (i \<noteq> 0)"
| "truthy (PyStr s) = (s \<noteq> [])"
| "truthy (PyList xs) = (xs \<noteq> [])"
| "truthy (PyFunc f) = True"

text \<open>
  \<^verbatim>\<open>getattr(obj, name, default)\<close>: an attribute that the object may lack is an
  \<open>option\<close> in the model, \<open>None\<close> standing for the missing attribute.
\<close>

definition getattr :: "'a option \<Rightarrow> 'a \<Rightarrow> 'a" where
  "getattr attribute dflt = (case attribute of None \<Rightarrow> dflt | Some v \<Rightarrow> v)"

text \<open>The exceptions that the module raises or lets through.\<close>

datatype py_error =
    ImproperlyConfigured string
  | NotRegistered string
  | ValueError string
  | KeyError pyval
  | TypeError string
  | AttributeError string

section \<open>Strings\<close>

text \<open>
  \<^verbatim>\<open>s.split(sep)\<close> for a separator of one character: the pieces between the
  occurrences of the separator, the empty ones included.
\<close>

fun str_split :: "char \<Rightarrow> string \<Rightarrow> string list" where
  "str_split sep [] = [[]]"
| "str_split sep (c # cs) =
     (if c = sep then [] # str_split sep cs
      else (case str_split sep cs of
              [] \<Rightarrow> [[c]]
            | p # ps \<Rightarrow> (c # p) # ps))"

text \<open>\<^verbatim>\<open>str(n)\<close> for an integer: its decimal digits, after a minus sign when negative.\<close>

definition digit_char :: "nat \<Rightarrow> char" where
  "digit_char d = char_of (48 + d)"

fun str_nat :: "nat \<Rightarrow> string" where
  "str_nat n = (if n < 10 then [digit_char n] else str_nat (n div 10) @ [digit_char (n mod 10)])"

declare str_nat.simps [simp del]

definition str_int :: "int \<Rightarrow> string" where
  "str_int i = (if i < 0 then CHR ''-'' # str_nat (nat (- i)) else str_nat (nat i))"

text \<open>
  The letter case operations on ASCII characters behind \<^verbatim>\<open>str.upper\<close>,
  \<^verbatim>\<open>str.lower\<close> and \<^verbatim>\<open>str.capitalize\<close>.
\<close>

definition upper_char :: "char \<Rightarrow> char" where
  "upper_char c =
     (let n = (of_char c :: nat) in if 97 \<le> n \<and> n \<le> 122 then char_of (n - 32) else c)"

definition lower_char :: "char \<Rightarrow> char" where
  "lower_char c =
     (let n = (of_char c :: nat) in if 65 \<le> n \<and> n \<le> 90 then char_of (n + 32) else c)"

definition capitalize :: "string \<Rightarrow> string" where
  "capitalize s = (case s of [] \<Rightarrow> [] | c # cs \<Rightarrow> upper_char c # map lower_char cs)"

definition replace_char :: "char \<Rightarrow> char \<Rightarrow> string \<Rightarrow> string" where
  "replace_char old new s = map (\<lambda>c. if c = old then new else c) s"

text \<open>
  \<^verbatim>\<open>django.utils.text.capfirst\<close>: the first character in upper case, the rest as it
  is; the empty string stays empty.
\<close>

definition capfirst :: "string \<Rightarrow> string" where
  "capfirst x = (case x of [] \<Rightarrow> [] | c # cs \<Rightarrow> upper_char c # cs)"

section \<open>Field definitions\<close>

text \<open>
  The field classes of the document mapper that the module tests with
  \<^verbatim>\<open>isinstance\<close>, and some more for examples. A field definition carries the classes
  it is an instance of (its class and all its base classes).
\<close>

datatype me_class =
    BaseField
  | ObjectIdField
  | StringField
  | URLField
  | EmailField
  | IntField
  | LongField
  | FloatField
  | DecimalField
  | BooleanField
  | SequenceField
  | ComplexBaseField
  | ListField
  | DictField

text \<open>
  The manager of a document class (\<^verbatim>\<open>model._default_manager\<close>), named by the
  collection it queries.
\<close>

datatype manager = Manager string

text \<open>
  A numeric bound (\<^verbatim>\<open>max_value\<close>, \<^verbatim>\<open>min_value\<close>): an integer, or a decimal or
  floating-point number, which the model keeps as the text that \<^verbatim>\<open>str\<close> gives for
  it (\<^verbatim>\<open>999.99\<close> for \<^verbatim>\<open>Decimal('999.99')\<close>).
\<close>

datatype bound =
    IntBound int
  | OtherBound string

fun str_bound :: "bound \<Rightarrow> string" where
  "str_bound (IntBound i) = str_int i"
| "str_bound (OtherBound s) = s"

text \<open>
  A field definition. The attributes that the module reads directly
  (\<^verbatim>\<open>model_field.required\<close>) are fields of the record. Those it reads with
  \<^verbatim>\<open>getattr(model_field, 'max_length', None)\<close> are options: \<open>None\<close> is a missing
  attribute or one that holds \<^verbatim>\<open>None\<close>. The verbose name and the help text are
  strings or \<^verbatim>\<open>None\<close>.
  \<open>precision\<close> and \<open>model_default_manager\<close> (\<^verbatim>\<open>model_field.model._default_manager\<close>)
  are read directly but only on some paths; \<open>None\<close> is a field definition without
  the attribute, where the access raises \<^verbatim>\<open>AttributeError\<close>. The field definitions
  that the mapper builds have a precision when they are decimal fields, and have no
  attribute \<^verbatim>\<open>model\<close>.
\<close>

record field =
  classes :: "me_class list"
  name :: string
  db_field :: string
  primary_key :: bool
  required :: bool
  null :: bool
  default :: pyval
  choices :: pyval
  validation :: pyval
  verbose_name :: "string option"
  help_text :: "string option"
  unique :: "bool option"
  max_length :: "int option"
  min_length :: "int option"
  max_value :: "bound option"
  min_value :: "bound option"
  precision :: "int option"
  model_default_manager :: "manager option"

definition isinstance :: "field \<Rightarrow> me_class list \<Rightarrow> bool" where
  "isinstance obj class_tuple = (\<exists>c \<in> set class_tuple. c \<in> set (classes obj))"

definition NUMERIC_FIELD_TYPES :: "me_class list" where
  "NUMERIC_FIELD_TYPES = [IntField, LongField, FloatField, DecimalField]"

text \<open>
  \<^verbatim>\<open>rest_framework.utils.field_mapping.needs_label\<close>: whether the capitalised
  verbose name differs from the label derived from the field name. The module
  calls it only with a verbose name that is a non-empty string.
\<close>

definition needs_label :: "field \<Rightarrow> string \<Rightarrow> bool" where
  "needs_label model_field field_name =
     (let default_label = capitalize (replace_char (CHR ''_'') (CHR '' '') field_name)
      in (case verbose_name model_field of
            Some s \<Rightarrow> capfirst s \<noteq> default_label
          | None \<Rightarrow> True))"

section \<open>The keyword arguments of a serializer field\<close>

text \<open>
  A validator in the list under \<^verbatim>\<open>validators\<close>: the validation function of the
  field definition, or \<^verbatim>\<open>UniqueValidator(queryset=..., message=...)\<close>.
\<close>

datatype validator =
    FieldValidation pyval
  | UniqueValidator manager pyval

datatype kwarg =
    KField field
  | KVal pyval
  | KBound bound
  | KValidators "validator list"

type_synonym kwargs = "string \<rightharpoonup> kwarg"

text \<open>
  The statement \<^verbatim>\<open>if cond: kwargs[key] = value\<close>, as a function of the dictionary.
\<close>

definition set_item_if :: "bool \<Rightarrow> string \<Rightarrow> kwarg \<Rightarrow> kwargs \<Rightarrow> kwargs" where
  "set_item_if cond key v kwargs = (if cond then kwargs(key \<mapsto> v) else kwargs)"

text \<open>
  \<^verbatim>\<open>get_field_kwargs(field_name, model_field)\<close>, statement by statement. The
  dictionary \<^verbatim>\<open>kwargs\<close> and the list \<^verbatim>\<open>validator_kwarg\<close> are rebound where
  the source mutates them; a local variable that has the name of an attribute
  is primed. A string or \<^verbatim>\<open>None\<close> is true when it is a non-empty string.
\<close>

definition get_field_kwargs :: "string \<Rightarrow> field \<Rightarrow> py_error + kwargs" where
  "get_field_kwargs field_name model_field =
    (let kwargs = Map.empty;
         validator_kwarg = [];
         validator_kwarg =
           (if truthy (validation model_field)
            then validator_kwarg @ [FieldValidation (validation model_field)]
            else validator_kwarg);
         kwargs = kwargs(''model_field'' \<mapsto> KField model_field);
         kwargs =
           set_item_if
             (getattr (verbose_name model_field) [] \<noteq> [] \<and> needs_label model_field field_name)
             ''label'' (KVal (PyStr (capfirst (getattr (verbose_name model_field) [])))) kwargs;
         kwargs =
           set_item_if (getattr (help_text model_field) [] \<noteq> [])
             ''help_text'' (KVal (PyStr (getattr (help_text model_field) []))) kwargs;
         decimal =
           (if isinstance model_field [DecimalField] then
              (case precision model_field of
                 None \<Rightarrow> Inl (AttributeError ''precision'')
               | Some precision' \<Rightarrow>
                   (let max_value' = max_value model_field;
                        max_length' =
                          (case max_value' of
                             Some v \<Rightarrow> int (length (str_bound v)) + precision'
                           | None \<Rightarrow> 65536)
                    in Inr (kwargs(''decimal_places'' \<mapsto> KVal (PyInt precision'),
                                   ''max_digits'' \<mapsto> KVal (PyInt max_length')))))
            else Inr kwargs)
     in case decimal of
          Inl e \<Rightarrow> Inl e
        | Inr kwargs \<Rightarrow>
     if isinstance model_field [SequenceField] \<or> primary_key model_field
        \<or> db_field model_field = ''_id''
     then Inr (kwargs(''read_only'' \<mapsto> KVal (PyBool True)))
     else
    (let kwargs = kwargs(''required'' \<mapsto> KVal (PyBool (required model_field)));
         kwargs =
           set_item_if (truthy (default model_field)) ''required'' (KVal (PyBool False)) kwargs;
         kwargs =
           set_item_if
             (truthy (default model_field) \<and> \<not> isinstance model_field [ComplexBaseField])
             ''default'' (KVal (default model_field)) kwargs;
         kwargs = set_item_if (null model_field) ''allow_null'' (KVal (PyBool True)) kwargs
     in
     if truthy (choices model_field)
     then Inr (kwargs(''choices'' \<mapsto> KVal (choices model_field)))
     else
    (let max_length' = max_length model_field;
         kwargs =
           set_item_if (max_length' \<noteq> None \<and> isinstance model_field [StringField])
             ''max_length'' (KVal (PyInt (the max_length'))) kwargs;
         min_length' = min_length model_field;
         kwargs =
           set_item_if (min_length' \<noteq> None \<and> isinstance model_field [StringField])
             ''min_length'' (KVal (PyInt (the min_length'))) kwargs;
         max_value' = max_value model_field;
         kwargs =
           set_item_if (max_value' \<noteq> None \<and> isinstance model_field NUMERIC_FIELD_TYPES)
             ''max_value'' (KBound (the max_value')) kwargs;
         min_value' = min_value model_field;
         kwargs =
           set_item_if (min_value' \<noteq> None \<and> isinstance model_field NUMERIC_FIELD_TYPES)
             ''min_value'' (KBound (the min_value')) kwargs;
         unique_validator =
           (if getattr (unique model_field) False then
              (case model_default_manager model_field of
                 None \<Rightarrow> Inl (AttributeError ''model'')
               | Some queryset \<Rightarrow>
                   (let validator = UniqueValidator queryset PyNone
                    in Inr (validator_kwarg @ [validator])))
            else Inr validator_kwarg)
     in case unique_validator of
          Inl e \<Rightarrow> Inl e
        | Inr validator_kwarg \<Rightarrow>
            Inr (set_item_if (validator_kwarg \<noteq> [])
                   ''validators'' (KValidators validator_kwarg) kwargs))))"

text \<open>
  The number of decimal digits of a bound, as the specification words the length that
  enters \<^verbatim>\<open>max_digits\<close>; the source takes \<^verbatim>\<open>len(str(max_value))\<close>.
\<close>

definition is_digit :: "char \<Rightarrow> bool" where
  "is_digit c = (let n = (of_char c :: nat) in 48 \<le> n \<and> n \<le> 57)"

definition digit_length :: "bound \<Rightarrow> nat" where
  "digit_length b = length (filter is_digit (str_bound b))"

section \<open>Document classes\<close>

text \<open>
  The document base classes of the mapper. A class carries those it is a subclass
  of, its qualified name, and what the metaclass of the mapper puts on a document
  class: \<^verbatim>\<open>_fields\<close>, \<^verbatim>\<open>_meta\<close> and \<^verbatim>\<open>_fields_ordered\<close>.
\<close>

datatype me_base =
    BaseDocument
  | Document
  | EmbeddedDocument
  | DynamicDocument

record py_class =
  qualname :: string
  bases :: "me_base list"
  model_fields :: "string \<rightharpoonup> field"
  model_meta :: "string \<rightharpoonup> pyval"
  model_fields_ordered :: "string list"

definition issubclass :: "py_class \<Rightarrow> me_base \<Rightarrow> bool" where
  "issubclass cls base = (base \<in> set (bases cls))"

text \<open>
  What \<^verbatim>\<open>_resolve_model\<close> can be given: a string, a class, or any other object,
  which the model keeps as the text that \<^verbatim>\<open>str\<close> gives for it.
\<close>

datatype pyobj =
    ObjStr string
  | ObjClass py_class
  | ObjOther string

fun py_str :: "pyobj \<Rightarrow> string" where
  "py_str (ObjStr s) = s"
| "py_str (ObjClass c) = ''<class '' @ [CHR 0x27] @ qualname c @ [CHR 0x27] @ ''>''"
| "py_str (ObjOther r) = r"

section \<open>The model resolver\<close>

text \<open>
  \<^verbatim>\<open>mongoengine.base.common.get_document\<close> of the mapper. The registry is a
  parameter: the map from a name to the class that the lookup finds for it. For a
  name it finds no class for, the lookup raises \<^verbatim>\<open>NotRegistered\<close>; it never returns
  \<^verbatim>\<open>None\<close>. The result is an option because the source tests it against \<^verbatim>\<open>None\<close>.
\<close>

definition get_document ::
  "(string \<rightharpoonup> py_class) \<Rightarrow> string \<Rightarrow> py_error + py_class option" where
  "get_document document_registry name' =
    (case document_registry name' of
       None \<Rightarrow> Inl (NotRegistered name')
     | Some cls \<Rightarrow> Inr (Some cls))"

text \<open>
  The document base classes among the attributes of the package \<^verbatim>\<open>mongoengine\<close>.
  The package exports \<^verbatim>\<open>Document\<close>, \<^verbatim>\<open>EmbeddedDocument\<close> and \<^verbatim>\<open>DynamicDocument\<close>;
  \<^verbatim>\<open>BaseDocument\<close> is defined in \<^verbatim>\<open>mongoengine.base\<close> and is not an attribute of the
  package, so that \<^verbatim>\<open>mongoengine.BaseDocument\<close> raises \<^verbatim>\<open>AttributeError\<close>.
\<close>

definition mongoengine_attr :: "string \<Rightarrow> py_error + me_base" where
  "mongoengine_attr a =
    (if a = ''Document'' then Inr Document
     else if a = ''EmbeddedDocument'' then Inr EmbeddedDocument
     else if a = ''DynamicDocument'' then Inr DynamicDocument
     else Inl (AttributeError a))"

text \<open>
  \<^verbatim>\<open>_resolve_model(obj)\<close>. The second test, \<^verbatim>\<open>inspect.isclass(obj) and
  issubclass(obj, mongoengine.BaseDocument)\<close>, looks the base class up only when
  \<^verbatim>\<open>obj\<close> is a class.
\<close>

definition resolve_model :: "(string \<rightharpoonup> py_class) \<Rightarrow> pyobj \<Rightarrow> py_error + py_class" where
  "resolve_model document_registry obj =
    (case obj of
       ObjStr s \<Rightarrow>
         if length (str_split (CHR ''.'') s) = 2 then
           (let app_name = str_split (CHR ''.'') s ! 0;
                model_name = str_split (CHR ''.'') s ! 1
            in case get_document document_registry model_name of
                 Inl e \<Rightarrow> Inl e
               | Inr resolved_model \<Rightarrow>
                   (case resolved_model of
                      None \<Rightarrow>
                        Inl (ImproperlyConfigured
                               (''Mongoengine did not return a model for '' @ app_name @ ''.''
                                  @ model_name))
                    | Some cls \<Rightarrow> Inr cls))
         else Inl (ValueError (py_str obj @ '' is not a MongoDB Document''))
     | ObjClass cls \<Rightarrow>
         (case mongoengine_attr ''BaseDocument'' of
            Inl e \<Rightarrow> Inl e
          | Inr base \<Rightarrow>
              if issubclass cls base then Inr cls
              else Inl (ValueError (py_str obj @ '' is not a MongoDB Document'')))
     | ObjOther r \<Rightarrow> Inl (ValueError (py_str obj @ '' is not a MongoDB Document'')))"

section \<open>The field information of a model\<close>

datatype relation_info =
  RelationInfo (rel_model_field: field) (related: string) (to_many: bool) (has_through_model: bool)

text \<open>
  The named tuple \<^verbatim>\<open>FieldInfo\<close>. An \<^verbatim>\<open>OrderedDict\<close> is an association list in insertion order;
  \<^verbatim>\<open>d[k] = v\<close> is \<^const>\<open>AList.update\<close>, which replaces the value of a key that is
  present where it stands and appends a new key at the end. The values of
  \<open>fields_and_pk\<close> are options because the primary key may be \<^verbatim>\<open>None\<close>.
\<close>

datatype field_info =
  FieldInfo
    (pk: "field option")
    (fields: "(string \<times> field) list")
    (forward_relations: "(string \<times> relation_info) list")
    (reverse_relations: "(string \<times> relation_info) list")
    (fields_and_pk: "(string \<times> field option) list")
    (relations: "(string \<times> relation_info) list")

text \<open>\<^verbatim>\<open>OrderedDict(pairs)\<close> and \<^verbatim>\<open>d.update(other)\<close>.\<close>

definition ordered_dict :: "('k \<times> 'v) list \<Rightarrow> ('k \<times> 'v) list" where
  "ordered_dict pairs = fold (\<lambda>(k, v). AList.update k v) pairs []"

definition od_update :: "('k \<times> 'v) list \<Rightarrow> ('k \<times> 'v) list \<Rightarrow> ('k \<times> 'v) list" where
  "od_update other d = fold (\<lambda>(k, v). AList.update k v) other d"

text \<open>
  \<^verbatim>\<open>model._fields[key]\<close>: the keys of \<^verbatim>\<open>_fields\<close> are strings, a list cannot be
  hashed, and any other key is missing.
\<close>

definition fields_getitem :: "py_class \<Rightarrow> pyval \<Rightarrow> py_error + field" where
  "fields_getitem model key =
    (case key of
       PyStr s \<Rightarrow> (case model_fields model s of None \<Rightarrow> Inl (KeyError key) | Some f \<Rightarrow> Inr f)
     | PyList xs \<Rightarrow> Inl (TypeError ''unhashable type'')
     | _ \<Rightarrow> Inl (KeyError key))"

text \<open>
  The loop \<^verbatim>\<open>for field_name in model._fields_ordered: fields[field_name] = model._fields[field_name]\<close>.
\<close>

fun fields_loop ::
  "py_class \<Rightarrow> string list \<Rightarrow> (string \<times> field) list \<Rightarrow> py_error + (string \<times> field) list" where
  "fields_loop model [] fields' = Inr fields'"
| "fields_loop model (field_name # rest) fields' =
     (case fields_getitem model (PyStr field_name) of
        Inl e \<Rightarrow> Inl e
      | Inr f \<Rightarrow> fields_loop model rest (AList.update field_name f fields'))"

text \<open>\<^verbatim>\<open>get_field_info(model)\<close>.\<close>

definition get_field_info :: "py_class \<Rightarrow> py_error + field_info" where
  "get_field_info model =
    (let pk_result =
           (if issubclass model EmbeddedDocument then Inr None
            else (case model_meta model ''id_field'' of
                    None \<Rightarrow> Inl (KeyError (PyStr ''id_field''))
                  | Some key \<Rightarrow>
                      (case fields_getitem model key of
                         Inl e \<Rightarrow> Inl e
                       | Inr f \<Rightarrow> Inr (Some f))))
     in case pk_result of
          Inl e \<Rightarrow> Inl e
        | Inr pk' \<Rightarrow>
     (case fields_loop model (model_fields_ordered model) [] of
        Inl e \<Rightarrow> Inl e
      | Inr fields' \<Rightarrow>
     (let forward_relations' = [];
          reverse_relations' = [];
          fields_and_pk' = [];
          fields_and_pk' = AList.update ''pk'' pk' fields_and_pk';
          fields_and_pk' =
            AList.update (case pk' of None \<Rightarrow> ''pk'' | Some f \<Rightarrow> name f) pk' fields_and_pk';
          fields_and_pk' = od_update (map (\<lambda>(k, f). (k, Some f)) fields') fields_and_pk';
          relations' = ordered_dict (forward_relations' @ reverse_relations')
      in Inr (FieldInfo pk' fields' forward_relations' reverse_relations' fields_and_pk'
                relations'))))"

text \<open>
  What the metaclass of the mapper guarantees of a document class, as far as the
  number of entries of \<^verbatim>\<open>fields_and_pk\<close> depends on it: every field definition is
  stored in \<^verbatim>\<open>_fields\<close> under its own name, and a document class that is not embedded
  has no field named \<^verbatim>\<open>pk\<close>, which the mapper refuses because \<^verbatim>\<open>pk\<close> is its alias
  of the identity field.
\<close>

definition mapper_built :: "py_class \<Rightarrow> bool" where
  "mapper_built model =
    ((\<forall>k f. model_fields model k = Some f \<longrightarrow> name f = k)
     \<and> (\<not> issubclass model EmbeddedDocument \<longrightarrow> model_fields model ''pk'' = None))"

section \<open>Example field definitions, models and registry\<close>

text \<open>
  A field definition as the base field class builds it when no argument is given,
  and field definitions and document classes made from it by setting attributes.
\<close>

definition blank_field :: field where
  "blank_field =
    \<lparr> classes = [BaseField], name = ''name'', db_field = ''name'', primary_key = False,
      required = False, null = False, default = PyNone, choices = PyNone,
      validation = PyNone, verbose_name = None, help_text = None, unique = Some False,
      max_length = None, min_length = None, max_value = None, min_value = None,
      precision = None, model_default_manager = None \<rparr>"

definition example_id_field :: field where
  "example_id_field =
     blank_field \<lparr> classes := [ObjectIdField, BaseField], name := ''id'', db_field := ''_id'',
                   primary_key := True \<rparr>"

definition example_sku_field :: field where
  "example_sku_field =
     blank_field \<lparr> classes := [DecimalField, BaseField], name := ''sku'', db_field := ''_id'',
                   primary_key := True, precision := Some 2 \<rparr>"

definition example_count_field :: field where
  "example_count_field =
     blank_field \<lparr> classes := [IntField, BaseField], name := ''count'', db_field := ''count'',
                   required := True, default := PyInt 0 \<rparr>"

definition example_status_field :: field where
  "example_status_field =
     blank_field \<lparr> classes := [StringField, BaseField], name := ''status'', db_field := ''status'',
                   choices := PyList [PyStr ''open'', PyStr ''closed''], unique := Some True,
                   max_length := Some 10 \<rparr>"

definition example_amount_field :: field where
  "example_amount_field =
     blank_field \<lparr> classes := [DecimalField, BaseField], name := ''amount'', db_field := ''amount'',
                   max_value := Some (IntBound 999), precision := Some 2 \<rparr>"

definition example_debt_field :: field where
  "example_debt_field =
     blank_field \<lparr> classes := [DecimalField, BaseField], name := ''debt'', db_field := ''debt'',
                   max_value := Some (IntBound (- 5)), precision := Some 2 \<rparr>"

definition example_price_field :: field where
  "example_price_field =
     blank_field \<lparr> classes := [DecimalField, BaseField], name := ''price'', db_field := ''price'',
                   max_value := Some (OtherBound ''999.99''), precision := Some 2 \<rparr>"

definition example_email_field :: field where
  "example_email_field =
     blank_field \<lparr> classes := [StringField, BaseField], name := ''email'', db_field := ''email'',
                   required := True, unique := Some True \<rparr>"


text \<open>
  \<open>example_user\<close> is a document class with its identity field \<^verbatim>\<open>id\<close> and one more
  field; \<open>example_address\<close> is an embedded document; \<open>example_legacy\<close> declares a field
  named \<^verbatim>\<open>pk\<close>; \<open>example_plain_class\<close> is a class that is no document.
\<close>

definition example_user :: py_class where
  "example_user =
    \<lparr> qualname = ''app.models.User'', bases = [Document, BaseDocument],
      model_fields = [''id'' \<mapsto> example_id_field, ''email'' \<mapsto> example_email_field],
      model_meta = [''id_field'' \<mapsto> PyStr ''id'', ''collection'' \<mapsto> PyStr ''user''],
      model_fields_ordered = [''id'', ''email''] \<rparr>"

definition example_address :: py_class where
  "example_address =
    \<lparr> qualname = ''app.models.Address'', bases = [EmbeddedDocument, BaseDocument],
      model_fields = [''status'' \<mapsto> example_status_field],
      model_meta = Map.empty,
      model_fields_ordered = [''status''] \<rparr>"


definition example_plain_class :: py_class where
  "example_plain_class =
    \<lparr> qualname = ''app.forms.ContactForm'', bases = [],
      model_fields = Map.empty, model_meta = Map.empty, model_fields_ordered = [] \<rparr>"

definition example_registry :: "string \<rightharpoonup> py_class" where
  "example_registry = [''User'' \<mapsto> example_user, ''Address'' \<mapsto> example_address]"

section \<open>Properties of the keyword arguments\<close>

lemma set_item_if_apply [simp]:
  "set_item_if c k v m k' = (if c \<and> k' = k then Some v else m k')"
  by (simp add: set_item_if_def)

lemma dom_set_item_if [simp]:
  "dom (set_item_if c k v m) = (if c then insert k (dom m) else dom m)"
  by (simp add: set_item_if_def)

lemma get_field_kwargs_read_only:
  assumes "isinstance f [SequenceField] \<or> primary_key f \<or> db_field f = ''_id''"
  shows "get_field_kwargs n f =
    (if isinstance f [DecimalField] then
       (case precision f of
          None \<Rightarrow> Inl (AttributeError ''precision'')
        | Some p \<Rightarrow>
            Inr ((set_item_if (getattr (help_text f) [] \<noteq> []) ''help_text''
                    (KVal (PyStr (getattr (help_text f) [])))
                  (set_item_if (getattr (verbose_name f) [] \<noteq> [] \<and> needs_label f n) ''label''
                    (KVal (PyStr (capfirst (getattr (verbose_name f) []))))
                    [''model_field'' \<mapsto> KField f]))
                 (''decimal_places'' \<mapsto> KVal (PyInt p),
                  ''max_digits'' \<mapsto> KVal (PyInt (case max_value f of
                       Some v \<Rightarrow> int (length (str_bound v)) + p | None \<Rightarrow> 65536)),
                  ''read_only'' \<mapsto> KVal (PyBool True))))
     else
       Inr ((set_item_if (getattr (help_text f) [] \<noteq> []) ''help_text''
               (KVal (PyStr (getattr (help_text f) [])))
             (set_item_if (getattr (verbose_name f) [] \<noteq> [] \<and> needs_label f n) ''label''
               (KVal (PyStr (capfirst (getattr (verbose_name f) []))))
               [''model_field'' \<mapsto> KField f]))
            (''read_only'' \<mapsto> KVal (PyBool True))))"
  using assms by (simp add: get_field_kwargs_def Let_def split: option.splits)

lemma get_field_kwargs_default:
  assumes "\<not> (isinstance f [SequenceField] \<or> primary_key f \<or> db_field f = ''_id'')"
    and "truthy (default f)" and "\<not> isinstance f [ComplexBaseField]"
    and "get_field_kwargs n f = Inr kw"
  shows "kw ''required'' = Some (KVal (PyBool False)) \<and> kw ''default'' = Some (KVal (default f))"
  using assms
  by (auto simp add: get_field_kwargs_def Let_def split: option.splits if_splits)

lemma is_digit_digit_char: "d < 10 \<Longrightarrow> is_digit (digit_char d)"
  by (simp add: is_digit_def digit_char_def)

lemma str_nat_digits: "c \<in> set (str_nat n) \<Longrightarrow> is_digit c"
proof (induction n rule: str_nat.induct)
  case (1 n)
  show ?case
  proof (cases "n < 10")
    case True
    with 1(2) show ?thesis
      by (simp add: str_nat.simps [of n] is_digit_digit_char)
  next
    case False
    with 1 show ?thesis
      by (auto simp add: str_nat.simps [of n] is_digit_digit_char)
  qed
qed

lemma filter_digits_str_nat: "filter is_digit (str_nat n) = str_nat n"
  by (simp add: str_nat_digits)

lemma digit_length_nonneg: "0 \<le> v \<Longrightarrow> length (str_int v) = digit_length (IntBound v)"
  by (simp add: digit_length_def str_int_def filter_digits_str_nat)

lemma digit_length_neg: "v < 0 \<Longrightarrow> length (str_int v) = Suc (digit_length (IntBound v))"
  by (simp add: digit_length_def str_int_def filter_digits_str_nat is_digit_def)

lemma get_field_kwargs_decimal_keys:
  assumes "isinstance f [DecimalField]" and "get_field_kwargs n f = Inr kw"
  shows "\<exists>p. precision f = Some p
    \<and> kw ''decimal_places'' = Some (KVal (PyInt p))
    \<and> kw ''max_digits'' = Some (KVal (PyInt (case max_value f of
         Some v \<Rightarrow> int (length (str_bound v)) + p | None \<Rightarrow> 65536)))"
  using assms
  by (auto simp add: get_field_kwargs_def Let_def split: option.splits if_splits)

lemma get_field_kwargs_returns:
  "(\<exists>kw. get_field_kwargs n f = Inr kw) \<longleftrightarrow>
     (isinstance f [DecimalField] \<longrightarrow> precision f \<noteq> None)
     \<and> (isinstance f [SequenceField] \<or> primary_key f \<or> db_field f = ''_id''
          \<or> truthy (choices f) \<or> \<not> getattr (unique f) False
          \<or> model_default_manager f \<noteq> None)"
  by (auto simp add: get_field_kwargs_def Let_def split: option.splits if_splits)

text \<open>
  Claim C1, as amended. For a field definition that is a sequence field, or is flagged as the
  primary key, or whose storage column is \<^verbatim>\<open>_id\<close>, \<open>get_field_kwargs\<close> returns (when
  a decimal field has its precision) a mapping whose keys are exactly \<^verbatim>\<open>model_field\<close>
  and \<^verbatim>\<open>read_only\<close> (which is true), \<^verbatim>\<open>label\<close> and \<^verbatim>\<open>help_text\<close> when these were
  set before the early return, and, for a decimal field, \<^verbatim>\<open>decimal_places\<close> and
  \<^verbatim>\<open>max_digits\<close>, which are set before the early return as well. It holds none of
  \<^verbatim>\<open>required\<close>, \<^verbatim>\<open>default\<close>, \<^verbatim>\<open>max_length\<close>, \<^verbatim>\<open>min_length\<close>, \<^verbatim>\<open>max_value\<close>,
  \<^verbatim>\<open>min_value\<close>.
\<close>

theorem read_only_field_kwargs:
  assumes "isinstance f [SequenceField] \<or> primary_key f \<or> db_field f = ''_id''"
    and "isinstance f [DecimalField] \<longrightarrow> precision f \<noteq> None"
  shows "\<exists>kw. get_field_kwargs n f = Inr kw
    \<and> kw ''model_field'' = Some (KField f)
    \<and> kw ''read_only'' = Some (KVal (PyBool True))
    \<and> dom kw = {''model_field'', ''read_only''}
         \<union> (if getattr (verbose_name f) [] \<noteq> [] \<and> needs_label f n then {''label''} else {})
         \<union> (if getattr (help_text f) [] \<noteq> [] then {''help_text''} else {})
         \<union> (if isinstance f [DecimalField] then {''decimal_places'', ''max_digits''} else {})
    \<and> kw ''required'' = None \<and> kw ''default'' = None
    \<and> kw ''max_length'' = None \<and> kw ''min_length'' = None
    \<and> kw ''max_value'' = None \<and> kw ''min_value'' = None"
proof (cases "isinstance f [DecimalField]")
  case True
  with assms(2) obtain p where p: "precision f = Some p" by auto
  show ?thesis
    unfolding get_field_kwargs_read_only [OF assms(1)] using True p
    by (auto split: if_splits)
next
  case False
  show ?thesis
    unfolding get_field_kwargs_read_only [OF assms(1)] using False
    by (auto split: if_splits)
qed

theorem read_only_field_kwargs_witness:
  "primary_key example_id_field
   \<and> (\<exists>kw. get_field_kwargs ''id'' example_id_field = Inr kw
        \<and> kw ''read_only'' = Some (KVal (PyBool True))
        \<and> dom kw = {''model_field'', ''read_only''}
        \<and> kw ''required'' = None)"
proof -
  have a: "primary_key example_id_field"
    by (simp add: example_id_field_def blank_field_def)
  have b: "\<not> isinstance example_id_field [DecimalField]"
    by (simp add: example_id_field_def blank_field_def isinstance_def)
  have c: "getattr (verbose_name example_id_field) [] = []" "getattr (help_text example_id_field) [] = []"
    by (simp_all add: example_id_field_def blank_field_def getattr_def)
  from read_only_field_kwargs [of example_id_field "''id''"] a b c show ?thesis
    by auto
qed

text \<open>
  Claim C1 as stated fails for a decimal field that is the primary key: the mapping also
  holds \<^verbatim>\<open>decimal_places\<close> and \<^verbatim>\<open>max_digits\<close>.
\<close>

theorem read_only_decimal_counterexample:
  "primary_key example_sku_field
   \<and> \<not> isl (get_field_kwargs ''sku'' example_sku_field)
   \<and> projr (get_field_kwargs ''sku'' example_sku_field) ''decimal_places'' = Some (KVal (PyInt 2))
   \<and> projr (get_field_kwargs ''sku'' example_sku_field) ''max_digits'' = Some (KVal (PyInt 65536))"
proof -
  have a: "primary_key example_sku_field"
    by (simp add: example_sku_field_def blank_field_def)
  have b: "isinstance example_sku_field [DecimalField]" "precision example_sku_field = Some 2"
    "max_value example_sku_field = None"
    by (simp_all add: example_sku_field_def blank_field_def isinstance_def)
  show ?thesis
    using a b by (simp add: get_field_kwargs_read_only)
qed

text \<open>
  Claim C2 at a field definition with \<^verbatim>\<open>required=True\<close> and \<^verbatim>\<open>default=0\<close> that is not
  a container: the source tests \<^verbatim>\<open>if model_field.default:\<close>, the default \<open>0\<close> is
  false, so \<^verbatim>\<open>required\<close> stays true and no \<^verbatim>\<open>default\<close> is passed. (For a default
  that is true, \<open>get_field_kwargs_default\<close> gives what the claim says.)
\<close>

theorem default_zero_not_passed:
  "default example_count_field = PyInt 0
   \<and> \<not> isinstance example_count_field [ComplexBaseField]
   \<and> \<not> isl (get_field_kwargs ''count'' example_count_field)
   \<and> projr (get_field_kwargs ''count'' example_count_field) ''required'' = Some (KVal (PyBool True))
   \<and> projr (get_field_kwargs ''count'' example_count_field) ''default'' = None"
  by (simp add: get_field_kwargs_def Let_def example_count_field_def blank_field_def
      isinstance_def NUMERIC_FIELD_TYPES_def getattr_def)

text \<open>
  Claim C5. For a field definition that is not read-only and declares choices,
  \<open>get_field_kwargs\<close> returns (when a decimal field has its precision) a mapping that
  holds \<^verbatim>\<open>choices\<close>, equal to the declared choices, and none of \<^verbatim>\<open>max_length\<close>,
  \<^verbatim>\<open>min_length\<close>, \<^verbatim>\<open>max_value\<close>, \<^verbatim>\<open>min_value\<close>, \<^verbatim>\<open>validators\<close>, whatever the
  field's \<^verbatim>\<open>unique\<close> and \<^verbatim>\<open>validation\<close> are.
\<close>

theorem choices_field_kwargs:
  assumes "\<not> (isinstance f [SequenceField] \<or> primary_key f \<or> db_field f = ''_id'')"
    and "truthy (choices f)"
    and "isinstance f [DecimalField] \<longrightarrow> precision f \<noteq> None"
  shows "\<exists>kw. get_field_kwargs n f = Inr kw
    \<and> kw ''choices'' = Some (KVal (choices f))
    \<and> kw ''max_length'' = None \<and> kw ''min_length'' = None
    \<and> kw ''max_value'' = None \<and> kw ''min_value'' = None
    \<and> kw ''validators'' = None"
  using assms
  by (auto simp add: get_field_kwargs_def Let_def split: option.splits)

theorem choices_field_kwargs_witness:
  "truthy (choices example_status_field)
   \<and> unique example_status_field = Some True
   \<and> max_length example_status_field = Some 10
   \<and> (\<exists>kw. get_field_kwargs ''status'' example_status_field = Inr kw
        \<and> kw ''choices'' = Some (KVal (PyList [PyStr ''open'', PyStr ''closed'']))
        \<and> kw ''max_length'' = None \<and> kw ''validators'' = None)"
proof -
  have a: "\<not> (isinstance example_status_field [SequenceField]
            \<or> primary_key example_status_field \<or> db_field example_status_field = ''_id'')"
    by (simp add: example_status_field_def blank_field_def isinstance_def)
  have b: "truthy (choices example_status_field)"
    "choices example_status_field = PyList [PyStr ''open'', PyStr ''closed'']"
    "unique example_status_field = Some True" "max_length example_status_field = Some 10"
    by (simp_all add: example_status_field_def blank_field_def)
  have c: "\<not> isinstance example_status_field [DecimalField]"
    by (simp add: example_status_field_def blank_field_def isinstance_def)
  from choices_field_kwargs [of example_status_field "''status''"] a b c show ?thesis
    by auto
qed

text \<open>
  What the decimal rule computes, for every decimal field definition with precision \<open>p\<close>
  on which \<open>get_field_kwargs\<close> returns: \<^verbatim>\<open>decimal_places\<close> is \<open>p\<close>, and \<^verbatim>\<open>max_digits\<close>
  is \<open>65536\<close> when no max value is declared and otherwise the length of the text
  \<^verbatim>\<open>str(max_value)\<close> plus \<open>p\<close>, which is the number of digits plus \<open>p\<close> when the max
  value is an integer that is not negative.
\<close>

lemma get_field_kwargs_decimal:
  assumes "isinstance f [DecimalField]" and "precision f = Some p"
    and "isinstance f [SequenceField] \<or> primary_key f \<or> db_field f = ''_id''
          \<or> truthy (choices f) \<or> \<not> getattr (unique f) False
          \<or> model_default_manager f \<noteq> None"
  shows "\<exists>kw. get_field_kwargs n f = Inr kw
    \<and> kw ''decimal_places'' = Some (KVal (PyInt p))
    \<and> kw ''max_digits'' = Some (KVal (PyInt (case max_value f of
         None \<Rightarrow> 65536
       | Some v \<Rightarrow> int (length (str_bound v)) + p)))
    \<and> (\<forall>v. max_value f = Some (IntBound v) \<and> 0 \<le> v \<longrightarrow>
          kw ''max_digits'' = Some (KVal (PyInt (int (digit_length (IntBound v)) + p))))"
proof -
  from assms have "\<exists>kw. get_field_kwargs n f = Inr kw"
    unfolding get_field_kwargs_returns by simp
  then obtain kw where kw: "get_field_kwargs n f = Inr kw" ..
  from get_field_kwargs_decimal_keys [OF assms(1) kw] assms(2)
  have keys: "kw ''decimal_places'' = Some (KVal (PyInt p))"
    "kw ''max_digits'' = Some (KVal (PyInt (case max_value f of
         Some v \<Rightarrow> int (length (str_bound v)) + p | None \<Rightarrow> 65536)))"
    by auto
  show ?thesis
    using kw keys by (auto simp add: digit_length_nonneg split: option.splits)
qed

lemma get_field_kwargs_example_amount:
  "\<exists>kw. get_field_kwargs ''amount'' example_amount_field = Inr kw
        \<and> kw ''decimal_places'' = Some (KVal (PyInt 2))
        \<and> kw ''max_digits'' = Some (KVal (PyInt 5))"
proof -
  have a: "isinstance example_amount_field [DecimalField]"
    by (simp add: example_amount_field_def blank_field_def isinstance_def)
  have b: "precision example_amount_field = Some 2"
    "max_value example_amount_field = Some (IntBound 999)"
    "\<not> getattr (unique example_amount_field) False"
    by (simp_all add: example_amount_field_def blank_field_def getattr_def)
  have c: "length (str_int 999) = 3"
    by (simp add: str_int_def str_nat.simps)
  from get_field_kwargs_decimal [of example_amount_field 2 "''amount''"] a b c show ?thesis
    by auto
qed

text \<open>
  Claim C6 at two decimal field definitions of precision \<open>2\<close>. With the max value
  \<^verbatim>\<open>Decimal('999.99')\<close>, of five digits, \<^verbatim>\<open>max_digits\<close> is \<open>8\<close>: the length of the
  text \<^verbatim>\<open>999.99\<close>, in which the point is counted, plus \<open>2\<close>. With the max value
  \<open>-5\<close>, of one digit, \<^verbatim>\<open>max_digits\<close> is \<open>4\<close>: the minus sign is counted. In neither
  case is it the number of digits plus the precision. (For an integer max value that
  is not negative it is, by \<open>get_field_kwargs_decimal\<close>; \<^verbatim>\<open>decimal_places\<close> is the
  precision in every case.)
\<close>

theorem decimal_max_digits_counts_text:
  "isinstance example_price_field [DecimalField]
   \<and> precision example_price_field = Some 2
   \<and> max_value example_price_field = Some (OtherBound ''999.99'')
   \<and> digit_length (OtherBound ''999.99'') = 5
   \<and> \<not> isl (get_field_kwargs ''price'' example_price_field)
   \<and> projr (get_field_kwargs ''price'' example_price_field) ''max_digits'' = Some (KVal (PyInt 8))
   \<and> isinstance example_debt_field [DecimalField]
   \<and> precision example_debt_field = Some 2
   \<and> max_value example_debt_field = Some (IntBound (- 5))
   \<and> digit_length (IntBound (- 5)) = 1
   \<and> \<not> isl (get_field_kwargs ''debt'' example_debt_field)
   \<and> projr (get_field_kwargs ''debt'' example_debt_field) ''max_digits'' = Some (KVal (PyInt 4))"
proof -
  have a: "isinstance example_price_field [DecimalField]"
    "isinstance example_debt_field [DecimalField]"
    by (simp_all add: example_price_field_def example_debt_field_def blank_field_def
        isinstance_def)
  have b: "precision example_price_field = Some 2"
    "max_value example_price_field = Some (OtherBound ''999.99'')"
    "precision example_debt_field = Some 2"
    "max_value example_debt_field = Some (IntBound (- 5))"
    by (simp_all add: example_price_field_def example_debt_field_def blank_field_def)
  have c: "digit_length (OtherBound ''999.99'') = 5" "digit_length (IntBound (- 5)) = 1"
    by (simp_all add: digit_length_def is_digit_def str_int_def str_nat.simps digit_char_def)
  have d: "length (str_int (- 5)) = 2"
    by (simp add: str_int_def str_nat.simps)
  have e: "get_field_kwargs ''price'' example_price_field
     = Inr (projr (get_field_kwargs ''price'' example_price_field))"
    "get_field_kwargs ''debt'' example_debt_field
     = Inr (projr (get_field_kwargs ''debt'' example_debt_field))"
    by (simp_all add: get_field_kwargs_def Let_def example_price_field_def
        example_debt_field_def blank_field_def isinstance_def NUMERIC_FIELD_TYPES_def getattr_def)
  from get_field_kwargs_decimal_keys [OF a(1) e(1)] b
  have p: "projr (get_field_kwargs ''price'' example_price_field) ''max_digits''
      = Some (KVal (PyInt 8))"
    by simp
  from get_field_kwargs_decimal_keys [OF a(2) e(2)] b d
  have q: "projr (get_field_kwargs ''debt'' example_debt_field) ''max_digits''
      = Some (KVal (PyInt 4))"
    by simp
  from e have r: "\<not> isl (get_field_kwargs ''price'' example_price_field)"
    "\<not> isl (get_field_kwargs ''debt'' example_debt_field)"
    by (metis sum.disc(2))+
  from a b c p q r show ?thesis by simp
qed

text \<open>
  The uniqueness rule reads \<^verbatim>\<open>model_field.model._default_manager\<close>. On a field
  definition that has this attribute, the validator list of a field without validation
  function is the uniqueness validator over that manager alone; on one that has not,
  the call raises \<^verbatim>\<open>AttributeError\<close>.
\<close>

lemma get_field_kwargs_unique:
  assumes "\<not> (isinstance f [SequenceField] \<or> primary_key f \<or> db_field f = ''_id'')"
    and "\<not> truthy (choices f)" and "\<not> truthy (validation f)"
    and "getattr (unique f) False"
    and "model_default_manager f = Some queryset"
    and "isinstance f [DecimalField] \<longrightarrow> precision f \<noteq> None"
  shows "\<exists>kw. get_field_kwargs n f = Inr kw
    \<and> kw ''validators'' = Some (KValidators [UniqueValidator queryset PyNone])"
  using assms
  by (auto simp add: get_field_kwargs_def Let_def split: option.splits)

lemma get_field_kwargs_unique_raises:
  assumes "\<not> (isinstance f [SequenceField] \<or> primary_key f \<or> db_field f = ''_id'')"
    and "\<not> truthy (choices f)"
    and "getattr (unique f) False"
    and "model_default_manager f = None"
    and "isinstance f [DecimalField] \<longrightarrow> precision f \<noteq> None"
  shows "get_field_kwargs n f = Inl (AttributeError ''model'')"
  using assms
  by (auto simp add: get_field_kwargs_def Let_def split: option.splits)

text \<open>
  Claim C7 at a string field definition as the mapper builds it for
  \<^verbatim>\<open>StringField(required=True, unique=True)\<close>: not read-only, unique, without choices,
  default and validation function. It has no attribute \<^verbatim>\<open>model\<close>, and the call
  raises \<^verbatim>\<open>AttributeError\<close> where the claim has it return a validator list of length
  one.
\<close>

theorem unique_field_raises:
  "isinstance example_email_field [StringField]
   \<and> unique example_email_field = Some True
   \<and> choices example_email_field = PyNone \<and> default example_email_field = PyNone
   \<and> validation example_email_field = PyNone
   \<and> model_default_manager example_email_field = None
   \<and> get_field_kwargs ''email'' example_email_field = Inl (AttributeError ''model'')"
proof -
  have a: "\<not> (isinstance example_email_field [SequenceField]
            \<or> primary_key example_email_field \<or> db_field example_email_field = ''_id'')"
    "isinstance example_email_field [StringField]"
    "\<not> isinstance example_email_field [DecimalField]"
    by (simp_all add: example_email_field_def blank_field_def isinstance_def)
  have b: "choices example_email_field = PyNone" "validation example_email_field = PyNone"
    "default example_email_field = PyNone" "unique example_email_field = Some True"
    "getattr (unique example_email_field) False"
    "model_default_manager example_email_field = None"
    by (simp_all add: example_email_field_def blank_field_def getattr_def)
  from get_field_kwargs_unique_raises [of example_email_field "''email''"] a b
  show ?thesis by simp
qed

section \<open>Properties of the model resolver\<close>

lemma str_split_no_sep: "sep \<notin> set s \<Longrightarrow> str_split sep s = [s]"
  by (induction s) auto

lemma str_split_append:
  "sep \<notin> set a \<Longrightarrow> str_split sep (a @ sep # b) = a # str_split sep b"
  by (induction a) auto

lemma str_split_not_Nil: "str_split sep s \<noteq> []"
  by (induction s) (auto split: list.splits)

lemma length_str_split: "length (str_split sep s) = Suc (count_list s sep)"
proof (induction s)
  case Nil
  then show ?case by simp
next
  case (Cons c s)
  then show ?case
    using str_split_not_Nil [of sep s] by (auto split: list.splits)
qed

lemma str_split_two_parts:
  assumes "CHR ''.'' \<notin> set a" and "CHR ''.'' \<notin> set b"
  shows "str_split (CHR ''.'') (a @ ''.'' @ b) = [a, b]"
  using assms by (simp add: str_split_append str_split_no_sep)

text \<open>
  What the resolver does on each kind of input: a two-part dotted string resolves to
  the class the registry holds for its second part, and raises \<^verbatim>\<open>NotRegistered\<close>,
  from the lookup, when it holds none; a string of any other shape and an object that
  is not a class raise the value error, whose message starts with the text of the
  input; a class raises \<^verbatim>\<open>AttributeError\<close>. No input raises the configuration error.
\<close>

lemma resolve_model_registered:
  assumes "CHR ''.'' \<notin> set a" and "CHR ''.'' \<notin> set b" and "document_registry b = Some cls"
  shows "resolve_model document_registry (ObjStr (a @ ''.'' @ b)) = Inr cls"
  using assms str_split_two_parts [of a b]
  by (simp add: resolve_model_def get_document_def Let_def)

lemma resolve_model_unregistered:
  assumes "CHR ''.'' \<notin> set a" and "CHR ''.'' \<notin> set b" and "document_registry b = None"
  shows "resolve_model document_registry (ObjStr (a @ ''.'' @ b)) = Inl (NotRegistered b)"
  using assms str_split_two_parts [of a b]
  by (simp add: resolve_model_def get_document_def Let_def)

lemma resolve_model_wrong_shape:
  assumes "count_list s (CHR ''.'') \<noteq> 1"
  shows "resolve_model document_registry (ObjStr s)
    = Inl (ValueError (s @ '' is not a MongoDB Document''))"
  using assms by (simp add: resolve_model_def length_str_split)

lemma resolve_model_not_class:
  "resolve_model document_registry (ObjOther r)
    = Inl (ValueError (r @ '' is not a MongoDB Document''))"
  by (simp add: resolve_model_def)

lemma resolve_model_class:
  "resolve_model document_registry (ObjClass cls) = Inl (AttributeError ''BaseDocument'')"
  by (simp add: resolve_model_def mongoengine_attr_def)

lemma resolve_model_not_improperly_configured:
  "resolve_model document_registry obj \<noteq> Inl (ImproperlyConfigured msg)"
  by (cases obj)
    (auto simp add: resolve_model_def get_document_def mongoengine_attr_def Let_def
      split: option.splits)

text \<open>
  Claim C3 at three inputs. The registry holds no document named \<^verbatim>\<open>Missing\<close>, and
  \<^verbatim>\<open>_resolve_model('app.Missing')\<close> raises \<^verbatim>\<open>NotRegistered\<close>, which the lookup raises
  before the source can test its result against \<^verbatim>\<open>None\<close>, where the claim has the
  configuration error. A class that is not a document class raises \<^verbatim>\<open>AttributeError\<close>
  where the claim has the value error, and so does a document class: the source names
  the base class \<^verbatim>\<open>mongoengine.BaseDocument\<close>, which the package does not have. The
  registered name resolves as the claim says.
\<close>

theorem resolve_model_error_kinds:
  "resolve_model example_registry (ObjStr ''app.User'') = Inr example_user
   \<and> example_registry ''Missing'' = None
   \<and> resolve_model example_registry (ObjStr ''app.Missing'') = Inl (NotRegistered ''Missing'')
   \<and> \<not> issubclass example_plain_class BaseDocument
   \<and> resolve_model example_registry (ObjClass example_plain_class)
       = Inl (AttributeError ''BaseDocument'')
   \<and> issubclass example_user BaseDocument
   \<and> resolve_model example_registry (ObjClass example_user)
       = Inl (AttributeError ''BaseDocument'')"
proof -
  have reg: "example_registry ''User'' = Some example_user" "example_registry ''Missing'' = None"
    by (simp_all add: example_registry_def)
  have dots: "CHR ''.'' \<notin> set ''app''" "CHR ''.'' \<notin> set ''User''"
    "CHR ''.'' \<notin> set ''Missing''"
    by simp_all
  have sub: "\<not> issubclass example_plain_class BaseDocument"
    "issubclass example_user BaseDocument"
    by (simp_all add: issubclass_def example_plain_class_def example_user_def)
  from resolve_model_registered [of "''app''" "''User''" example_registry example_user]
    resolve_model_unregistered [of "''app''" "''Missing''" example_registry]
    reg dots sub show ?thesis
    by (simp add: resolve_model_class)
qed

section \<open>Properties of ordered dictionaries and of the loop over the fields\<close>

lemma update_fresh: "k \<notin> fst ` set d \<Longrightarrow> AList.update k v d = d @ [(k, v)]"
  by (induction d) auto

lemma fold_update_append:
  "distinct (map fst xs) \<Longrightarrow> fst ` set xs \<inter> fst ` set d = {} \<Longrightarrow>
   fold (\<lambda>(k, v). AList.update k v) xs d = d @ xs"
proof (induction xs arbitrary: d)
  case Nil
  then show ?case by simp
next
  case (Cons x xs)
  obtain k v where x: "x = (k, v)" by (cases x)
  from Cons.prems x have fresh: "k \<notin> fst ` set d" by auto
  from Cons.prems x have "fst ` set xs \<inter> fst ` set (d @ [(k, v)]) = {}" by auto
  with Cons.IH [of "d @ [(k, v)]"] Cons.prems x fresh show ?case
    by (simp add: update_fresh)
qed

lemma fields_getitem_str:
  "fields_getitem model (PyStr s) = Inr f \<longleftrightarrow> model_fields model s = Some f"
  by (auto simp add: fields_getitem_def split: option.splits)

lemma fields_loop_lookup:
  "fields_loop model names acc = Inr r \<Longrightarrow>
   map_of r k = (if k \<in> set names then model_fields model k else map_of acc k)
   \<and> set names \<subseteq> dom (model_fields model)"
proof (induction names arbitrary: acc)
  case Nil
  then show ?case by simp
next
  case (Cons a names)
  from Cons.prems obtain f where f: "fields_getitem model (PyStr a) = Inr f"
    and rest: "fields_loop model names (AList.update a f acc) = Inr r"
    by (auto split: sum.splits)
  from f have mf: "model_fields model a = Some f" by (simp add: fields_getitem_str)
  from Cons.IH [OF rest] mf show ?case
    by (auto simp add: update_conv')
qed


lemma fields_loop_distinct:
  "fields_loop model names acc = Inr r \<Longrightarrow> distinct names \<Longrightarrow> set names \<inter> fst ` set acc = {} \<Longrightarrow>
   r = acc @ map (\<lambda>n. (n, the (model_fields model n))) names"
proof (induction names arbitrary: acc)
  case Nil
  then show ?case by simp
next
  case (Cons a names)
  from Cons.prems obtain f where f: "fields_getitem model (PyStr a) = Inr f"
    and rest: "fields_loop model names (AList.update a f acc) = Inr r"
    by (auto split: sum.splits)
  from f have mf: "model_fields model a = Some f" by (simp add: fields_getitem_str)
  from Cons.prems have fresh: "a \<notin> fst ` set acc" by auto
  then have upd: "AList.update a f acc = acc @ [(a, f)]" by (rule update_fresh)
  from Cons.prems have "set names \<inter> fst ` set (acc @ [(a, f)]) = {}" by auto
  with Cons.IH [of "acc @ [(a, f)]"] rest upd Cons.prems(2) mf show ?case
    by simp
qed

lemma fields_loop_returns:
  "set names \<subseteq> dom (model_fields model) \<Longrightarrow> \<exists>r. fields_loop model names acc = Inr r"
proof (induction names arbitrary: acc)
  case Nil
  then show ?case by simp
next
  case (Cons a names)
  then obtain f where "model_fields model a = Some f" by auto
  then have "fields_getitem model (PyStr a) = Inr f" by (simp add: fields_getitem_str)
  with Cons show ?case by simp
qed

lemma map_of_od_update:
  "distinct (map fst other) \<Longrightarrow>
   map_of (od_update other d) k = (case map_of other k of Some v \<Rightarrow> Some v | None \<Rightarrow> map_of d k)"
  unfolding od_update_def
proof (induction other arbitrary: d)
  case Nil
  then show ?case by simp
next
  case (Cons x other)
  obtain a v where x: "x = (a, v)" by (cases x)
  from Cons.prems x have notin: "a \<notin> fst ` set other" by auto
  then have none: "map_of other a = None" by (simp add: map_of_eq_None_iff)
  from Cons.IH [of "AList.update a v d"] Cons.prems x none show ?case
    by (auto simp add: update_conv' split: option.splits)
qed

lemma od_update_keys: "fst ` set (od_update other d) = fst ` set d \<union> fst ` set other"
  unfolding od_update_def
proof (induction other arbitrary: d)
  case Nil
  then show ?case by simp
next
  case (Cons x other)
  obtain a v where x: "x = (a, v)" by (cases x)
  from Cons.IH [of "AList.update a v d"] x show ?case
    by (auto simp add: dom_update)
qed

lemma od_update_distinct:
  "distinct (map fst d) \<Longrightarrow> distinct (map fst (od_update other d))"
  unfolding od_update_def
proof (induction other arbitrary: d)
  case Nil
  then show ?case by simp
next
  case (Cons x other)
  obtain a v where x: "x = (a, v)" by (cases x)
  from Cons.IH [of "AList.update a v d"] Cons.prems x show ?case
    by (simp add: distinct_update)
qed

section \<open>Properties of the field information\<close>

lemma get_field_infoE:
  assumes "get_field_info model = Inr info"
  obtains pk' fields' where
    "info = FieldInfo pk' fields' [] []
       (od_update (map (\<lambda>(k, f). (k, Some f)) fields')
          (AList.update (case pk' of None \<Rightarrow> ''pk'' | Some f \<Rightarrow> name f) pk'
             (AList.update ''pk'' pk' []))) (ordered_dict [])"
    and "fields_loop model (model_fields_ordered model) [] = Inr fields'"
    and "issubclass model EmbeddedDocument \<Longrightarrow> pk' = None"
    and "\<not> issubclass model EmbeddedDocument \<Longrightarrow>
         \<exists>s f. model_meta model ''id_field'' = Some (PyStr s) \<and> model_fields model s = Some f
           \<and> pk' = Some f"
  using assms
  by (auto simp add: get_field_info_def Let_def fields_getitem_def
      split: sum.splits if_splits option.splits pyval.splits)

lemma length_fields_and_pk:
  assumes "get_field_info model = Inr info"
  shows "length (fields_and_pk info) =
    card ({''pk'', (case pk info of None \<Rightarrow> ''pk'' | Some p \<Rightarrow> name p)}
          \<union> set (model_fields_ordered model))"
proof -
  from assms obtain pk' fields' where
    info: "info = FieldInfo pk' fields' [] []
       (od_update (map (\<lambda>(k, f). (k, Some f)) fields')
          (AList.update (case pk' of None \<Rightarrow> ''pk'' | Some f \<Rightarrow> name f) pk'
             (AList.update ''pk'' pk' []))) (ordered_dict [])"
    and loop: "fields_loop model (model_fields_ordered model) [] = Inr fields'"
    by (rule get_field_infoE)
  define key where "key = (case pk' of None \<Rightarrow> ''pk'' | Some f \<Rightarrow> name f)"
  define base where "base = AList.update key pk' (AList.update ''pk'' pk' [])"
  define other where "other = map (\<lambda>(k, f). (k, Some f)) fields'"
  define merged where "merged = od_update other base"
  have keys_fields: "fst ` set fields' = set (model_fields_ordered model)"
  proof
    show "fst ` set fields' \<subseteq> set (model_fields_ordered model)"
    proof
      fix k assume "k \<in> fst ` set fields'"
      then have "map_of fields' k \<noteq> None" by (simp add: map_of_eq_None_iff)
      with fields_loop_lookup [OF loop, of k] show "k \<in> set (model_fields_ordered model)"
        by (auto split: if_splits)
    qed
    show "set (model_fields_ordered model) \<subseteq> fst ` set fields'"
    proof
      fix k assume k: "k \<in> set (model_fields_ordered model)"
      with fields_loop_lookup [OF loop, of k] have "map_of fields' k \<noteq> None" by auto
      then show "k \<in> fst ` set fields'" by (simp add: map_of_eq_None_iff)
    qed
  qed
  have keys_other: "fst ` set other = set (model_fields_ordered model)"
    using keys_fields unfolding other_def by (force simp add: image_iff)
  have keys_base: "fst ` set base = {''pk'', key}"
    unfolding base_def by (simp add: dom_update insert_commute)
  have "distinct (map fst base)"
    unfolding base_def by (intro distinct_update) simp
  then have d: "distinct (map fst merged)"
    unfolding merged_def by (rule od_update_distinct)
  have keys_merged: "set (map fst merged) = {''pk'', key} \<union> set (model_fields_ordered model)"
    using od_update_keys [of other base] keys_other keys_base
    unfolding merged_def by simp
  have "length merged = length (map fst merged)"
    by simp
  also have "\<dots> = card (set (map fst merged))"
    using d by (rule distinct_card [symmetric])
  finally have "length merged = card ({''pk'', key} \<union> set (model_fields_ordered model))"
    using keys_merged by simp
  moreover have "fields_and_pk info = merged" "pk info = pk'"
    using info by (simp_all add: merged_def other_def base_def key_def)
  ultimately show ?thesis
    by (simp add: key_def)
qed

lemma name_example_id_field: "name example_id_field = ''id''"
  by (simp add: example_id_field_def blank_field_def)

lemma get_field_info_example_user:
  "get_field_info example_user =
     Inr (FieldInfo (Some example_id_field)
            [(''id'', example_id_field), (''email'', example_email_field)] [] []
            [(''pk'', Some example_id_field), (''id'', Some example_id_field),
             (''email'', Some example_email_field)] [])"
  by (simp add: get_field_info_def Let_def example_user_def issubclass_def fields_getitem_def
      od_update_def ordered_dict_def name_example_id_field)

lemma get_field_info_example_address:
  "get_field_info example_address =
     Inr (FieldInfo None [(''status'', example_status_field)] [] []
            [(''pk'', None), (''status'', Some example_status_field)] [])"
  by (simp add: get_field_info_def Let_def example_address_def issubclass_def fields_getitem_def
      od_update_def ordered_dict_def)


text \<open>
  Claim C8. In every \<^verbatim>\<open>FieldInfo\<close> that \<open>get_field_info\<close> returns,
  \<^verbatim>\<open>forward_relations\<close>, \<^verbatim>\<open>reverse_relations\<close> and \<^verbatim>\<open>relations\<close> are empty.
\<close>

theorem relations_empty:
  assumes "get_field_info model = Inr info"
  shows "forward_relations info = [] \<and> reverse_relations info = [] \<and> relations info = []"
  using assms by (elim get_field_infoE) (simp add: ordered_dict_def)

theorem relations_empty_witness:
  "\<not> isl (get_field_info example_user)
   \<and> forward_relations (projr (get_field_info example_user)) = []
   \<and> reverse_relations (projr (get_field_info example_user)) = []
   \<and> relations (projr (get_field_info example_user)) = []"
proof -
  have e: "get_field_info example_user = Inr (projr (get_field_info example_user))"
    by (simp add: get_field_info_example_user)
  then have "\<not> isl (get_field_info example_user)"
    by (metis sum.disc(2))
  with relations_empty [OF e] show ?thesis by simp
qed

text \<open>
  Claim C9. In the \<^verbatim>\<open>FieldInfo\<close> that \<open>get_field_info\<close> returns, \<^verbatim>\<open>pk\<close> is
  \<^verbatim>\<open>None\<close> for an embedded document class; for any other class it is the field
  definition that \<^verbatim>\<open>_fields\<close> holds under the name that \<^verbatim>\<open>_meta['id_field']\<close> gives.
\<close>

theorem pk_of_model:
  assumes "get_field_info model = Inr info"
  shows "(issubclass model EmbeddedDocument \<longrightarrow> pk info = None)
    \<and> (\<not> issubclass model EmbeddedDocument \<longrightarrow>
         (\<exists>s f. model_meta model ''id_field'' = Some (PyStr s)
            \<and> model_fields model s = Some f \<and> pk info = Some f))"
  using assms by (elim get_field_infoE) auto

theorem pk_of_model_witness:
  "issubclass example_address EmbeddedDocument
   \<and> \<not> isl (get_field_info example_address)
   \<and> pk (projr (get_field_info example_address)) = None
   \<and> \<not> issubclass example_user EmbeddedDocument
   \<and> \<not> isl (get_field_info example_user)
   \<and> pk (projr (get_field_info example_user)) = Some example_id_field"
proof -
  have a: "issubclass example_address EmbeddedDocument"
    by (simp add: issubclass_def example_address_def)
  have u: "\<not> issubclass example_user EmbeddedDocument"
    by (simp add: issubclass_def example_user_def)
  have ea: "get_field_info example_address = Inr (projr (get_field_info example_address))"
    by (simp add: get_field_info_example_address)
  have eu: "get_field_info example_user = Inr (projr (get_field_info example_user))"
    by (simp add: get_field_info_example_user)
  from ea eu have r: "\<not> isl (get_field_info example_address)" "\<not> isl (get_field_info example_user)"
    by (metis sum.disc(2))+
  from pk_of_model [OF ea] a have pa: "pk (projr (get_field_info example_address)) = None"
    by simp
  from pk_of_model [OF eu] u
  have pu: "pk (projr (get_field_info example_user)) = Some example_id_field"
    by (auto simp add: example_user_def)
  from a u r pa pu show ?thesis by simp
qed



text \<open>
  Claim C4. For a model class as the mapper builds it, with \<open>N\<close> declared fields of
  distinct names, \<^verbatim>\<open>fields\<close> of the returned \<^verbatim>\<open>FieldInfo\<close> has exactly \<open>N\<close> entries,
  in the order of declaration, each mapping a field name to its field definition. When
  the primary key is present, \<^verbatim>\<open>fields_and_pk\<close> maps the key \<^verbatim>\<open>pk\<close> and the key that
  is the primary key's name to the definition of the primary key; it has \<open>N + 2\<close>
  entries (these two, then the \<open>N\<close> fields) unless the primary key's name is a declared
  field name, and \<open>N + 1\<close> entries when it is, which is the case of every class whose
  identity field is among its declared fields.
\<close>

theorem fields_and_pk_entries:
  assumes "get_field_info model = Inr info"
    and "distinct (model_fields_ordered model)"
    and "mapper_built model"
  shows "map fst (fields info) = model_fields_ordered model
    \<and> (\<forall>(k, f) \<in> set (fields info). model_fields model k = Some f)
    \<and> length (fields info) = length (model_fields_ordered model)
    \<and> (\<forall>p. pk info = Some p \<longrightarrow>
          map_of (fields_and_pk info) ''pk'' = Some (Some p)
        \<and> map_of (fields_and_pk info) (name p) = Some (Some p)
        \<and> (name p \<notin> set (model_fields_ordered model) \<longrightarrow>
             fields_and_pk info =
               [(''pk'', Some p), (name p, Some p)] @ map (\<lambda>(k, f). (k, Some f)) (fields info)
             \<and> length (fields_and_pk info) = length (model_fields_ordered model) + 2)
        \<and> (name p \<in> set (model_fields_ordered model) \<longrightarrow>
             length (fields_and_pk info) = length (model_fields_ordered model) + 1))"
proof -
  let ?names = "model_fields_ordered model"
  from assms(1) obtain pk' fields' where
    info: "info = FieldInfo pk' fields' [] []
       (od_update (map (\<lambda>(k, f). (k, Some f)) fields')
          (AList.update (case pk' of None \<Rightarrow> ''pk'' | Some f \<Rightarrow> name f) pk'
             (AList.update ''pk'' pk' []))) (ordered_dict [])"
    and loop: "fields_loop model ?names [] = Inr fields'"
    and emb: "issubclass model EmbeddedDocument \<longrightarrow> pk' = None"
    and top: "\<not> issubclass model EmbeddedDocument \<longrightarrow>
         (\<exists>s f. model_meta model ''id_field'' = Some (PyStr s) \<and> model_fields model s = Some f
           \<and> pk' = Some f)"
    by (elim get_field_infoE) blast
  define other where "other = map (\<lambda>(k, f). (k, Some f)) fields'"
  from fields_loop_distinct [OF loop assms(2)]
  have fs: "fields' = map (\<lambda>n. (n, the (model_fields model n))) ?names" by simp
  from fields_loop_lookup [OF loop] have sub: "set ?names \<subseteq> dom (model_fields model)"
    by simp
  have lookup: "map_of fields' k = (if k \<in> set ?names then model_fields model k else None)"
    for k
    using fields_loop_lookup [OF loop, of k] by simp
  have keys: "map fst fields' = ?names"
    by (simp add: fs comp_def)
  have vals: "\<forall>(k, f) \<in> set fields'. model_fields model k = Some f"
    using sub by (auto simp add: fs)
  have len: "length fields' = length ?names"
    by (simp add: fs)
  have other_keys: "map fst other = ?names"
    using keys by (simp add: other_def comp_def case_prod_beta)
  have other_distinct: "distinct (map fst other)"
    using assms(2) other_keys by simp
  have other_lookup: "map_of other k = map_option Some (map_of fields' k)" for k
    by (simp add: other_def map_of_map)
  have pk_part:
    "map_of (fields_and_pk info) ''pk'' = Some (Some p)
     \<and> map_of (fields_and_pk info) (name p) = Some (Some p)
     \<and> (name p \<notin> set ?names \<longrightarrow>
          fields_and_pk info = [(''pk'', Some p), (name p, Some p)] @ other
          \<and> length (fields_and_pk info) = length ?names + 2)
     \<and> (name p \<in> set ?names \<longrightarrow> length (fields_and_pk info) = length ?names + 1)"
    if p: "pk info = Some p" for p
  proof -
    from p info have pk': "pk' = Some p" by simp
    with emb have not_emb: "\<not> issubclass model EmbeddedDocument" by auto
    from top not_emb pk' obtain s where s: "model_fields model s = Some p" by auto
    from assms(3) s have name_p: "name p = s" by (simp add: mapper_built_def)
    from assms(3) not_emb have no_pk: "model_fields model ''pk'' = None"
      by (simp add: mapper_built_def)
    from no_pk sub have pk_new: "''pk'' \<notin> set ?names" by auto
    from no_pk s name_p have name_not_pk: "name p \<noteq> ''pk''" by auto
    define base where "base = [(''pk'', Some p), (name p, Some p)]"
    have base_eq: "AList.update (name p) (Some p) (AList.update ''pk'' (Some p) []) = base"
      using name_not_pk by (auto simp add: base_def)
    have merged: "fields_and_pk info = od_update other base"
      using info pk' base_eq by (simp add: other_def)
    have at_pk: "map_of (fields_and_pk info) ''pk'' = Some (Some p)"
      using map_of_od_update [OF other_distinct, of base "''pk''"] pk_new
      by (simp add: merged other_lookup lookup base_def)
    have at_name: "map_of (fields_and_pk info) (name p) = Some (Some p)"
      using map_of_od_update [OF other_distinct, of base "name p"] s name_p name_not_pk
      by (simp add: merged other_lookup lookup base_def)
    have count: "length (fields_and_pk info) = card ({''pk'', name p} \<union> set ?names)"
      using length_fields_and_pk [OF assms(1)] p by simp
    have declared: "length (fields_and_pk info) = length ?names + 1" if "name p \<in> set ?names"
    proof -
      from that have "{''pk'', name p} \<union> set ?names = insert ''pk'' (set ?names)" by auto
      with count pk_new assms(2) show ?thesis
        by (simp add: distinct_card)
    qed
    have fresh: "fields_and_pk info = base @ other
        \<and> length (fields_and_pk info) = length ?names + 2"
      if "name p \<notin> set ?names"
    proof -
      have "fst ` set other = set ?names"
        using other_keys by (metis set_map)
      with that pk_new have "fst ` set other \<inter> fst ` set base = {}"
        by (auto simp add: base_def)
      from fold_update_append [OF other_distinct this] merged
      have "fields_and_pk info = base @ other" by (simp add: od_update_def)
      moreover have "length other = length ?names"
        using len by (simp add: other_def)
      ultimately show ?thesis by (simp add: base_def)
    qed
    from at_pk at_name declared fresh show ?thesis
      by (auto simp add: base_def)
  qed
  show ?thesis
    using keys vals len pk_part info by (auto simp add: other_def)
qed

theorem fields_and_pk_entries_witness:
  "distinct (model_fields_ordered example_user)
   \<and> mapper_built example_user
   \<and> length (model_fields_ordered example_user) = 2
   \<and> \<not> isl (get_field_info example_user)
   \<and> pk (projr (get_field_info example_user)) = Some example_id_field
   \<and> name example_id_field \<in> set (model_fields_ordered example_user)
   \<and> map fst (fields (projr (get_field_info example_user))) = [''id'', ''email'']
   \<and> length (fields (projr (get_field_info example_user))) = 2
   \<and> map_of (fields_and_pk (projr (get_field_info example_user))) ''pk''
       = Some (Some example_id_field)
   \<and> map_of (fields_and_pk (projr (get_field_info example_user))) ''id''
       = Some (Some example_id_field)
   \<and> length (fields_and_pk (projr (get_field_info example_user))) = 3"
proof -
  let ?info = "projr (get_field_info example_user)"
  have d: "distinct (model_fields_ordered example_user)"
    "model_fields_ordered example_user = [''id'', ''email'']"
    by (simp_all add: example_user_def)
  have names: "name example_id_field = ''id''" "name example_email_field = ''email''"
    by (simp_all add: example_id_field_def example_email_field_def blank_field_def)
  have b: "mapper_built example_user"
    using names
    by (auto simp add: mapper_built_def example_user_def issubclass_def split: if_splits)
  have e: "get_field_info example_user = Inr ?info"
    by (simp add: get_field_info_example_user)
  then have r: "\<not> isl (get_field_info example_user)"
    by (metis sum.disc(2))
  have p: "pk ?info = Some example_id_field"
    by (simp add: get_field_info_example_user)
  note t = fields_and_pk_entries [OF e d(1) b]
  from t d(2) have f: "map fst (fields ?info) = [''id'', ''email'']" "length (fields ?info) = 2"
    by simp_all
  from t p d(2) names(1)
  have m: "map_of (fields_and_pk ?info) ''pk'' = Some (Some example_id_field)"
    "map_of (fields_and_pk ?info) ''id'' = Some (Some example_id_field)"
    "length (fields_and_pk ?info) = 3"
    by auto
  from d b r p f m names(1) show ?thesis by simp
qed

end
